theory Spec2Isabelle
  imports Main "HOL-Library.Word"
begin

section \<open>JavaScript strings\<close>

text \<open>
  A JavaScript string is a sequence of UTF-16 code units; \<open>.length\<close> counts code units
  and a regular expression without the \<open>u\<close> flag matches code unit by code unit.
  The literals of \<open>contact-form.js\<close> are ASCII; \<open>js\<close> writes one as code units.
\<close>

type_synonym code_unit = "16 word"
type_synonym jsstring = "code_unit list"

definition js :: "string \<Rightarrow> jsstring" where
  "js s = map (\<lambda>c. of_nat (of_char c)) s"

text \<open>
  ECMAScript WhiteSpace and LineTerminator code units: what \<open>String.prototype.trim\<close>
  strips from both ends and what the class escape \<open>\s\<close> matches.
\<close>

definition isWhiteSpace :: "code_unit \<Rightarrow> bool" where
  "isWhiteSpace c \<longleftrightarrow>
     c = 0x0009 \<or> c = 0x000A \<or> c = 0x000B \<or> c = 0x000C \<or> c = 0x000D \<or> c = 0x0020
     \<or> c = 0x00A0 \<or> c = 0x1680 \<or> (0x2000 \<le> c \<and> c \<le> 0x200A)
     \<or> c = 0x2028 \<or> c = 0x2029 \<or> c = 0x202F \<or> c = 0x205F \<or> c = 0x3000 \<or> c = 0xFEFF"

definition trim :: "jsstring \<Rightarrow> jsstring" where
  "trim s = rev (dropWhile isWhiteSpace (rev (dropWhile isWhiteSpace s)))"

section \<open>Regular expressions\<close>

text \<open>
  The fragment of the regular expression syntax that \<open>isValidEmail\<close> uses: a literal
  code unit, a negated class \<open>[^...]\<close> of class escapes and literals, sequencing and
  \<open>+\<close>. The pattern is anchored by \<open>^\<close> and \<open>$\<close> and has no flags, so
  \<open>RegExp.prototype.test\<close> asks whether the whole string matches; \<open>regex_test\<close>
  decides that by derivatives.
\<close>

datatype class_atom = ClassSpace | ClassChar code_unit

datatype regex =
    Never
  | Empty
  | Char code_unit
  | NotClass "class_atom list"
  | Alt regex regex
  | Seq regex regex
  | Star regex

definition Plus :: "regex \<Rightarrow> regex" where
  "Plus r = Seq r (Star r)"

fun class_atom_matches :: "class_atom \<Rightarrow> code_unit \<Rightarrow> bool" where
  "class_atom_matches ClassSpace c = isWhiteSpace c"
| "class_atom_matches (ClassChar d) c = (c = d)"

fun nullable :: "regex \<Rightarrow> bool" where
  "nullable Never = False"
| "nullable Empty = True"
| "nullable (Char d) = False"
| "nullable (NotClass as) = False"
| "nullable (Alt r s) = (nullable r \<or> nullable s)"
| "nullable (Seq r s) = (nullable r \<and> nullable s)"
| "nullable (Star r) = True"

fun deriv :: "code_unit \<Rightarrow> regex \<Rightarrow> regex" where
  "deriv c Never = Never"
| "deriv c Empty = Never"
| "deriv c (Char d) = (if c = d then Empty else Never)"
| "deriv c (NotClass as) = (if list_ex (\<lambda>a. class_atom_matches a c) as then Never else Empty)"
| "deriv c (Alt r s) = Alt (deriv c r) (deriv c s)"
| "deriv c (Seq r s) =
     (if nullable r then Alt (Seq (deriv c r) s) (deriv c s) else Seq (deriv c r) s)"
| "deriv c (Star r) = Seq (deriv c r) (Star r)"

definition regex_test :: "regex \<Rightarrow> jsstring \<Rightarrow> bool" where
  "regex_test r s = nullable (foldl (\<lambda>r c. deriv c r) r s)"

text \<open>The language of a regular expression, the reference for \<open>regex_test\<close>.\<close>

inductive_set star :: "jsstring set \<Rightarrow> jsstring set" for A :: "jsstring set" where
  star_nil: "[] \<in> star A"
| star_app: "u \<in> A \<Longrightarrow> v \<in> star A \<Longrightarrow> u @ v \<in> star A"

definition conc :: "jsstring set \<Rightarrow> jsstring set \<Rightarrow> jsstring set" where
  "conc A B = {u @ v | u v. u \<in> A \<and> v \<in> B}"

fun lang :: "regex \<Rightarrow> jsstring set" where
  "lang Never = {}"
| "lang Empty = {[]}"
| "lang (Char d) = {[d]}"
| "lang (NotClass as) = {[c] | c. \<not> list_ex (\<lambda>a. class_atom_matches a c) as}"
| "lang (Alt r s) = lang r \<union> lang s"
| "lang (Seq r s) = conc (lang r) (lang s)"
| "lang (Star r) = star (lang r)"

section \<open>Validator\<close>

text \<open>\<open>isValidEmail\<close>: the pattern \<open>/^[^\s@]+@[^\s@]+\.[^\s@]+$/\<close>.\<close>

definition emailRegex :: regex where
  "emailRegex =
     Seq (Plus (NotClass [ClassSpace, ClassChar 0x40]))
       (Seq (Char 0x40)
         (Seq (Plus (NotClass [ClassSpace, ClassChar 0x40]))
           (Seq (Char 0x2E)
             (Plus (NotClass [ClassSpace, ClassChar 0x40])))))"

definition isValidEmail :: "jsstring \<Rightarrow> bool" where
  "isValidEmail email = regex_test emailRegex email"

text \<open>The \<open>data\<close> object of the submit handler and the error objects of \<open>validateForm\<close>.\<close>

record form_data =
  name :: jsstring
  email :: jsstring
  subject :: jsstring
  message :: jsstring

record validation_error =
  field :: jsstring
  error_message :: jsstring

text \<open>
  \<open>validateForm\<close>: \<open>!data.name\<close> on a string is true exactly for the empty string;
  each \<open>errors.push\<close> appends.
\<close>

definition validateForm :: "form_data \<Rightarrow> validation_error list" where
  "validateForm data =
     (let errors = [];
          errors =
            (if name data = [] then
               errors @ [\<lparr>field = js ''name'', error_message = js ''Name is required''\<rparr>]
             else if length (name data) < 2 then
               errors @ [\<lparr>field = js ''name'',
                          error_message = js ''Name must be at least 2 characters''\<rparr>]
             else errors);
          errors =
            (if email data = [] then
               errors @ [\<lparr>field = js ''email'', error_message = js ''Email is required''\<rparr>]
             else if \<not> isValidEmail (email data) then
               errors @ [\<lparr>field = js ''email'',
                          error_message = js ''Please enter a valid email address''\<rparr>]
             else errors);
          errors =
            (if subject data = [] then
               errors @ [\<lparr>field = js ''subject'', error_message = js ''Subject is required''\<rparr>]
             else if length (subject data) < 3 then
               errors @ [\<lparr>field = js ''subject'',
                          error_message = js ''Subject must be at least 3 characters''\<rparr>]
             else errors);
          errors =
            (if message data = [] then
               errors @ [\<lparr>field = js ''message'', error_message = js ''Message is required''\<rparr>]
             else if length (message data) < 10 then
               errors @ [\<lparr>field = js ''message'',
                          error_message = js ''Message must be at least 10 characters''\<rparr>]
             else errors)
      in errors)"

text \<open>
  The \<open>switch\<close> of \<open>validateSingleField\<close> (lines 124 to 153): the value of the local
  \<open>error\<close> after it, \<open>None\<close> for \<open>null\<close>. There is no \<open>default\<close> branch.
\<close>

definition fieldError :: "jsstring \<Rightarrow> jsstring \<Rightarrow> jsstring option" where
  "fieldError fieldName val =
     (if fieldName = js ''name'' then
        (if val = [] then Some (js ''Name is required'')
         else if length val < 2 then Some (js ''Name must be at least 2 characters'')
         else None)
      else if fieldName = js ''email'' then
        (if val = [] then Some (js ''Email is required'')
         else if \<not> isValidEmail val then Some (js ''Please enter a valid email address'')
         else None)
      else if fieldName = js ''subject'' then
        (if val = [] then Some (js ''Subject is required'')
         else if length val < 3 then Some (js ''Subject must be at least 3 characters'')
         else None)
      else if fieldName = js ''message'' then
        (if val = [] then Some (js ''Message is required'')
         else if length val < 10 then Some (js ''Message must be at least 10 characters'')
         else None)
      else None)"

section \<open>Page state\<close>

text \<open>
  \<open>classList\<close> is an ordered set of tokens: \<open>add\<close> appends a token that is absent,
  \<open>remove\<close> deletes it, \<open>contains\<close> tests membership.
\<close>

definition classList_contains :: "jsstring list \<Rightarrow> jsstring \<Rightarrow> bool" where
  "classList_contains cl t = List.member cl t"

definition classList_add :: "jsstring list \<Rightarrow> jsstring \<Rightarrow> jsstring list" where
  "classList_add cl t = (if List.member cl t then cl else cl @ [t])"

definition classList_remove :: "jsstring list \<Rightarrow> jsstring \<Rightarrow> jsstring list" where
  "classList_remove cl t = removeAll t cl"

text \<open>
  An input or textarea with the element that follows it (\<open>nextElementSibling\<close>,
  \<open>None\<close> for \<open>null\<close>). The page markup is not part of the repository; the model
  takes the layout that the script relies on: the form controls, each owning its
  following element, and one element for each of the ids \<open>error-message\<close>,
  \<open>error-list\<close>, \<open>success-message\<close>, \<open>contact-form\<close>, \<open>submit-btn\<close>,
  \<open>btn-text\<close> and the \<open>i\<close> icon of the button, all distinct.
\<close>

record sibling =
  sib_classList :: "jsstring list"
  sib_textContent :: jsstring

record element =
  el_id :: jsstring
  el_name :: jsstring
  el_value :: jsstring
  el_defaultValue :: jsstring
  el_classList :: "jsstring list"
  el_nextElementSibling :: "sibling option"

datatype callback = CallSubmitForm form_data | RemoveShake | HideSuccess

datatype effect = PreventDefault | CreateIcons | ConsoleLog form_data | ScrollIntoView jsstring

datatype error = TypeError

record page =
  controls :: "element list"
  error_message_classList :: "jsstring list"
  error_list :: "jsstring list"
  success_message_classList :: "jsstring list"
  contact_form_classList :: "jsstring list"
  submit_btn_disabled :: bool
  btn_text :: jsstring
  icon_data_lucide :: jsstring
  icon_classList :: "jsstring list"
  timers :: "(callback \<times> nat) list"
  effects :: "effect list"

text \<open>
  A handler either returns or throws; the changes it made to the page before throwing
  stay.
\<close>

datatype outcome = Returned page | Threw error page

fun page_of :: "outcome \<Rightarrow> page" where
  "page_of (Returned p) = p"
| "page_of (Threw e p) = p"

definition perform :: "effect \<Rightarrow> page \<Rightarrow> page" where
  "perform e p = p\<lparr>effects := effects p @ [e]\<rparr>"

definition setTimeout :: "callback \<Rightarrow> nat \<Rightarrow> page \<Rightarrow> page" where
  "setTimeout cb ms p = p\<lparr>timers := timers p @ [(cb, ms)]\<rparr>"

text \<open>
  \<open>update_by_id i f\<close> is \<open>field = document.getElementById(i); if (field) { f }\<close> for
  the field ids: it changes the first control with that id, and nothing when there is
  none.
\<close>

fun update_first :: "('a \<Rightarrow> bool) \<Rightarrow> ('a \<Rightarrow> 'a) \<Rightarrow> 'a list \<Rightarrow> 'a list" where
  "update_first P f [] = []"
| "update_first P f (x # xs) = (if P x then f x # xs else x # update_first P f xs)"

definition update_by_id :: "jsstring \<Rightarrow> (element \<Rightarrow> element) \<Rightarrow> page \<Rightarrow> page" where
  "update_by_id i f p = p\<lparr>controls := update_first (\<lambda>e. el_id e = i) f (controls p)\<rparr>"

text \<open>\<open>new FormData(form).get(n)\<close>: the value of the first control named \<open>n\<close>, or \<open>null\<close>.\<close>

definition formData_get :: "page \<Rightarrow> jsstring \<Rightarrow> jsstring option" where
  "formData_get p n = map_option el_value (find (\<lambda>e. el_name e = n) (controls p))"

section \<open>Field presenter\<close>

text \<open>
  Lines 156 to 163 of \<open>validateSingleField\<close> and, with the same statements, lines 197
  to 205 of \<open>showErrors\<close>: mark the field and show the message in the element after it.
\<close>

definition markInvalid :: "jsstring \<Rightarrow> element \<Rightarrow> element" where
  "markInvalid msg fld =
     (let fld = fld\<lparr>el_classList :=
                  classList_add (classList_add (el_classList fld) (js ''border-red-500''))
                    (js ''bg-red-50'')\<rparr>;
          fld = fld\<lparr>el_classList := classList_remove (el_classList fld) (js ''border-gray-300'')\<rparr>
      in case el_nextElementSibling fld of
           None \<Rightarrow> fld
         | Some errorDiv \<Rightarrow>
             if classList_contains (sib_classList errorDiv) (js ''error-message'') then
               fld\<lparr>el_nextElementSibling :=
                 Some (errorDiv\<lparr>sib_textContent := msg,
                         sib_classList := classList_remove (sib_classList errorDiv) (js ''hidden'')\<rparr>)\<rparr>
             else fld)"

text \<open>
  \<open>validateSingleField\<close>, the blur handler of every input and textarea.
  \<open>if (error)\<close> holds for a string that is neither \<open>null\<close> nor empty.
\<close>

definition validateSingleField :: "element \<Rightarrow> element" where
  "validateSingleField fld =
     (let val = trim (el_value fld);
          fieldName = el_name fld;
          error = fieldError fieldName val
      in case error of
           None \<Rightarrow> fld
         | Some msg \<Rightarrow> if msg = [] then fld else markInvalid msg fld)"

text \<open>The \<open>input\<close> handler that \<open>setupRealTimeValidation\<close> attaches (lines 65 to 76).\<close>

definition onInput :: "element \<Rightarrow> element" where
  "onInput fld =
     (if classList_contains (el_classList fld) (js ''border-red-500'') then
        (let fld = fld\<lparr>el_classList :=
                     classList_remove (classList_remove (el_classList fld) (js ''border-red-500''))
                       (js ''bg-red-50'')\<rparr>;
             fld = fld\<lparr>el_classList := classList_add (el_classList fld) (js ''border-gray-300'')\<rparr>
         in case el_nextElementSibling fld of
              None \<Rightarrow> fld
            | Some errorDiv \<Rightarrow>
                if classList_contains (sib_classList errorDiv) (js ''error-message'') then
                  fld\<lparr>el_nextElementSibling :=
                    Some (errorDiv\<lparr>sib_classList :=
                            classList_add (sib_classList errorDiv) (js ''hidden'')\<rparr>)\<rparr>
                else fld)
      else fld)"

text \<open>\<open>showErrors\<close>: the body of the \<open>forEach\<close> for one error, then the whole function.\<close>

definition showError :: "page \<Rightarrow> validation_error \<Rightarrow> page" where
  "showError p err =
     (let p = p\<lparr>error_list := error_list p @ [error_message err]\<rparr>
      in update_by_id (field err) (markInvalid (error_message err)) p)"

definition showErrors :: "validation_error list \<Rightarrow> page \<Rightarrow> page" where
  "showErrors errors p =
     (let p = p\<lparr>error_list := []\<rparr>;
          p = foldl showError p errors;
          p = p\<lparr>error_message_classList :=
                 classList_remove (error_message_classList p) (js ''hidden'')\<rparr>;
          p = p\<lparr>error_message_classList :=
                 classList_add (error_message_classList p) (js ''slide-in'')\<rparr>;
          p = p\<lparr>contact_form_classList :=
                 classList_add (contact_form_classList p) (js ''shake'')\<rparr>;
          p = setTimeout RemoveShake 500 p
      in perform (ScrollIntoView (js ''error-message'')) p)"

text \<open>\<open>clearErrors\<close>: the body of its \<open>forEach\<close> for one field name, then the function.\<close>

definition clearField :: "element \<Rightarrow> element" where
  "clearField fld =
     (let fld = fld\<lparr>el_classList :=
                  classList_remove (classList_remove (el_classList fld) (js ''border-red-500''))
                    (js ''bg-red-50'')\<rparr>;
          fld = fld\<lparr>el_classList := classList_add (el_classList fld) (js ''border-gray-300'')\<rparr>
      in case el_nextElementSibling fld of
           None \<Rightarrow> fld
         | Some errorDiv \<Rightarrow>
             if classList_contains (sib_classList errorDiv) (js ''error-message'') then
               fld\<lparr>el_nextElementSibling :=
                 Some (errorDiv\<lparr>sib_classList :=
                         classList_add (sib_classList errorDiv) (js ''hidden'')\<rparr>)\<rparr>
             else fld)"

definition clearErrors :: "page \<Rightarrow> page" where
  "clearErrors p =
     (let p = p\<lparr>error_message_classList :=
                 classList_add (error_message_classList p) (js ''hidden'')\<rparr>;
          p = p\<lparr>success_message_classList :=
                 classList_add (success_message_classList p) (js ''hidden'')\<rparr>;
          fields = [js ''name'', js ''email'', js ''subject'', js ''message'']
      in foldl (\<lambda>p fieldName. update_by_id fieldName clearField p) p fields)"

section \<open>Form controller and submission stub\<close>

definition showLoading :: "page \<Rightarrow> page" where
  "showLoading p =
     (let p = p\<lparr>submit_btn_disabled := True\<rparr>;
          p = p\<lparr>btn_text := js ''Sending...''\<rparr>;
          p = p\<lparr>icon_data_lucide := js ''loader-2''\<rparr>;
          p = p\<lparr>icon_classList := classList_add (icon_classList p) (js ''animate-spin'')\<rparr>
      in perform CreateIcons p)"

definition resetButton :: "page \<Rightarrow> page" where
  "resetButton p =
     (let p = p\<lparr>submit_btn_disabled := False\<rparr>;
          p = p\<lparr>btn_text := js ''Launch Message''\<rparr>;
          p = p\<lparr>icon_data_lucide := js ''send''\<rparr>;
          p = p\<lparr>icon_classList := classList_remove (icon_classList p) (js ''animate-spin'')\<rparr>
      in perform CreateIcons p)"

text \<open>\<open>form.reset()\<close> gives every control its default value back.\<close>

definition form_reset :: "page \<Rightarrow> page" where
  "form_reset p = p\<lparr>controls := map (\<lambda>e. e\<lparr>el_value := el_defaultValue e\<rparr>) (controls p)\<rparr>"

definition submitForm :: "form_data \<Rightarrow> page \<Rightarrow> page" where
  "submitForm data p =
     (let p = perform (ConsoleLog data) p;
          p = form_reset p;
          p = p\<lparr>success_message_classList :=
                 classList_remove (success_message_classList p) (js ''hidden'')\<rparr>;
          p = p\<lparr>success_message_classList :=
                 classList_add (success_message_classList p) (js ''slide-in'')\<rparr>;
          p = resetButton p;
          p = perform (ScrollIntoView (js ''success-message'')) p
      in setTimeout HideSuccess 5000 p)"

text \<open>
  The \<open>data\<close> object of the submit handler (lines 29 to 35). \<open>formData.get\<close> of a name
  that no control has is \<open>null\<close>, and \<open>.trim()\<close> on it throws a TypeError.
\<close>

definition formRecord :: "page \<Rightarrow> form_data option" where
  "formRecord p =
     (case formData_get p (js ''name'') of None \<Rightarrow> None | Some n \<Rightarrow>
      case formData_get p (js ''email'') of None \<Rightarrow> None | Some e \<Rightarrow>
      case formData_get p (js ''subject'') of None \<Rightarrow> None | Some s \<Rightarrow>
      case formData_get p (js ''message'') of None \<Rightarrow> None | Some m \<Rightarrow>
        Some \<lparr>name = trim n, email = trim e, subject = trim s, message = trim m\<rparr>)"

text \<open>The submit handler that \<open>setupFormSubmission\<close> attaches (lines 22 to 52).\<close>

definition onSubmit :: "page \<Rightarrow> outcome" where
  "onSubmit p =
     (let p = perform PreventDefault p;
          p = clearErrors p
      in case formRecord p of
           None \<Rightarrow> Threw TypeError p
         | Some data \<Rightarrow>
             (let errors = validateForm data
              in if length errors > 0 then Returned (showErrors errors p)
                 else Returned (setTimeout (CallSubmitForm data) 1500 (showLoading p))))"

text \<open>The three deferred callbacks of the script.\<close>

fun run_callback :: "callback \<Rightarrow> page \<Rightarrow> page" where
  "run_callback (CallSubmitForm data) p = submitForm data p"
| "run_callback RemoveShake p =
     p\<lparr>contact_form_classList := classList_remove (contact_form_classList p) (js ''shake'')\<rparr>"
| "run_callback HideSuccess p =
     p\<lparr>success_message_classList := classList_add (success_message_classList p) (js ''hidden'')\<rparr>"

text \<open>
  The events the script listens to: submit of the form, blur on the control at a
  position of the document, input on a control (the browser has stored the edited value
  when the handler runs), and the expiry of a pending timer (which is then removed).
  An event that names no control or no timer changes nothing.
\<close>

datatype event = Submit | Blur nat | Input nat jsstring | Timeout nat

fun step :: "event \<Rightarrow> page \<Rightarrow> outcome" where
  "step Submit p = onSubmit p"
| "step (Blur i) p =
     (if i < length (controls p)
      then Returned (p\<lparr>controls := (controls p)[i := validateSingleField (controls p ! i)]\<rparr>)
      else Returned p)"
| "step (Input i v) p =
     (if i < length (controls p)
      then Returned (p\<lparr>controls := (controls p)[i := onInput ((controls p ! i)\<lparr>el_value := v\<rparr>)]\<rparr>)
      else Returned p)"
| "step (Timeout k) p =
     (if k < length (timers p)
      then Returned (run_callback (fst (timers p ! k))
                      (p\<lparr>timers := take k (timers p) @ drop (Suc k) (timers p)\<rparr>))
      else Returned p)"

text \<open>A sequence of events, each handled on the page the one before left.\<close>

fun run :: "event list \<Rightarrow> page \<Rightarrow> page" where
  "run [] p = p"
| "run (ev # evs) p = run evs (page_of (step ev p))"

section \<open>Observations used in the statements\<close>

text \<open>The errors of a list that belong to one field.\<close>

definition errorsFor :: "jsstring \<Rightarrow> validation_error list \<Rightarrow> validation_error list" where
  "errorsFor f errors = filter (\<lambda>e. field e = f) errors"

text \<open>\<open>data[f]\<close>: the property of the \<open>data\<close> object named \<open>f\<close>, if it has one.\<close>

definition property :: "form_data \<Rightarrow> jsstring \<Rightarrow> jsstring option" where
  "property data f =
     (if f = js ''name'' then Some (name data)
      else if f = js ''email'' then Some (email data)
      else if f = js ''subject'' then Some (subject data)
      else if f = js ''message'' then Some (message data)
      else None)"

text \<open>The code units after the last \<open>@\<close> of a string (all of it when there is none).\<close>

definition domainPart :: "jsstring \<Rightarrow> jsstring" where
  "domainPart e = rev (takeWhile (\<lambda>c. c \<noteq> 0x40) (rev e))"

text \<open>The state of the submit button: its \<open>disabled\<close> flag and its label.\<close>

definition button :: "page \<Rightarrow> bool \<times> jsstring" where
  "button p = (submit_btn_disabled p, btn_text p)"

text \<open>
  The two events that move the button: a submit whose record validates (Idle to
  Loading) and the expiry of the timer that holds the \<open>submitForm\<close> call (Loading
  to Idle).
\<close>

definition entersLoading :: "event \<Rightarrow> page \<Rightarrow> bool" where
  "entersLoading ev p =
     (case ev of
        Submit \<Rightarrow> (case formRecord p of None \<Rightarrow> False | Some data \<Rightarrow> validateForm data = [])
      | _ \<Rightarrow> False)"

definition stubResolves :: "event \<Rightarrow> page \<Rightarrow> bool" where
  "stubResolves ev p =
     (case ev of
        Timeout k \<Rightarrow>
          k < length (timers p) \<and>
          (case fst (timers p ! k) of CallSubmitForm data \<Rightarrow> True | _ \<Rightarrow> False)
      | _ \<Rightarrow> False)"

section \<open>Correctness of the matcher\<close>

lemma cons_in_star:
  "c # w \<in> star A \<longleftrightarrow> (\<exists>u v. w = u @ v \<and> c # u \<in> A \<and> v \<in> star A)"
proof
  assume "c # w \<in> star A"
  then show "\<exists>u v. w = u @ v \<and> c # u \<in> A \<and> v \<in> star A"
  proof (induction "c # w" rule: star.induct)
    case (star_app u v)
    show ?case
    proof (cases u)
      case Nil
      with star_app show ?thesis by simp
    next
      case (Cons d u')
      with star_app show ?thesis by auto
    qed
  qed
next
  assume "\<exists>u v. w = u @ v \<and> c # u \<in> A \<and> v \<in> star A"
  then obtain u v where "w = u @ v" "c # u \<in> A" "v \<in> star A" by blast
  then show "c # w \<in> star A"
    using star_app [of "c # u" A v] by simp
qed

lemma nullable_lang: "nullable r \<longleftrightarrow> [] \<in> lang r"
  by (induction r) (auto simp: conc_def intro: star.intros)

lemma cons_in_conc:
  "c # w \<in> conc A B \<longleftrightarrow>
     ([] \<in> A \<and> c # w \<in> B) \<or> (\<exists>u v. w = u @ v \<and> c # u \<in> A \<and> v \<in> B)"
  by (auto simp: conc_def Cons_eq_append_conv)

lemma lang_deriv: "w \<in> lang (deriv c r) \<longleftrightarrow> c # w \<in> lang r"
proof (induction r arbitrary: w)
  case (Seq r s)
  then show ?case
    by (auto simp: cons_in_conc nullable_lang) (auto simp: conc_def)
next
  case (Star r)
  then show ?case
    by (auto simp: cons_in_star conc_def)
qed auto

lemma foldl_deriv_lang: "nullable (foldl (\<lambda>r c. deriv c r) r s) \<longleftrightarrow> s \<in> lang r"
  by (induction s arbitrary: r) (simp_all add: nullable_lang lang_deriv)

lemma regex_test_lang: "regex_test r s \<longleftrightarrow> s \<in> lang r"
  by (simp add: regex_test_def foldl_deriv_lang)

section \<open>The validator, field by field\<close>

lemma field_names_distinct:
  "js ''name'' \<noteq> js ''email''" "js ''name'' \<noteq> js ''subject''" "js ''name'' \<noteq> js ''message''"
  "js ''email'' \<noteq> js ''subject''" "js ''email'' \<noteq> js ''message''"
  "js ''subject'' \<noteq> js ''message''"
  "js ''email'' \<noteq> js ''name''" "js ''subject'' \<noteq> js ''name''" "js ''message'' \<noteq> js ''name''"
  "js ''subject'' \<noteq> js ''email''" "js ''message'' \<noteq> js ''email''"
  "js ''message'' \<noteq> js ''subject''"
  by (simp_all add: js_def)

lemma validateForm_append:
  "validateForm d =
     (if name d = [] then [\<lparr>field = js ''name'', error_message = js ''Name is required''\<rparr>]
      else if length (name d) < 2 then
        [\<lparr>field = js ''name'', error_message = js ''Name must be at least 2 characters''\<rparr>]
      else [])
     @ (if email d = [] then [\<lparr>field = js ''email'', error_message = js ''Email is required''\<rparr>]
        else if \<not> isValidEmail (email d) then
          [\<lparr>field = js ''email'', error_message = js ''Please enter a valid email address''\<rparr>]
        else [])
     @ (if subject d = [] then
          [\<lparr>field = js ''subject'', error_message = js ''Subject is required''\<rparr>]
        else if length (subject d) < 3 then
          [\<lparr>field = js ''subject'', error_message = js ''Subject must be at least 3 characters''\<rparr>]
        else [])
     @ (if message d = [] then
          [\<lparr>field = js ''message'', error_message = js ''Message is required''\<rparr>]
        else if length (message d) < 10 then
          [\<lparr>field = js ''message'', error_message = js ''Message must be at least 10 characters''\<rparr>]
        else [])"
  by (simp add: validateForm_def Let_def)

lemma errorsFor_name:
  "errorsFor (js ''name'') (validateForm d) =
     (if name d = [] then [\<lparr>field = js ''name'', error_message = js ''Name is required''\<rparr>]
      else if length (name d) < 2 then
        [\<lparr>field = js ''name'', error_message = js ''Name must be at least 2 characters''\<rparr>]
      else [])"
  by (simp add: errorsFor_def validateForm_append field_names_distinct)

lemma errorsFor_email:
  "errorsFor (js ''email'') (validateForm d) =
     (if email d = [] then [\<lparr>field = js ''email'', error_message = js ''Email is required''\<rparr>]
      else if \<not> isValidEmail (email d) then
        [\<lparr>field = js ''email'', error_message = js ''Please enter a valid email address''\<rparr>]
      else [])"
  by (simp add: errorsFor_def validateForm_append field_names_distinct)

lemma errorsFor_subject:
  "errorsFor (js ''subject'') (validateForm d) =
     (if subject d = [] then [\<lparr>field = js ''subject'', error_message = js ''Subject is required''\<rparr>]
      else if length (subject d) < 3 then
        [\<lparr>field = js ''subject'', error_message = js ''Subject must be at least 3 characters''\<rparr>]
      else [])"
  by (simp add: errorsFor_def validateForm_append field_names_distinct)

lemma errorsFor_message:
  "errorsFor (js ''message'') (validateForm d) =
     (if message d = [] then [\<lparr>field = js ''message'', error_message = js ''Message is required''\<rparr>]
      else if length (message d) < 10 then
        [\<lparr>field = js ''message'', error_message = js ''Message must be at least 10 characters''\<rparr>]
      else [])"
  by (simp add: errorsFor_def validateForm_append field_names_distinct)

lemma errorsFor_other:
  "f \<noteq> js ''name'' \<Longrightarrow> f \<noteq> js ''email'' \<Longrightarrow> f \<noteq> js ''subject'' \<Longrightarrow> f \<noteq> js ''message''
     \<Longrightarrow> errorsFor f (validateForm d) = []"
  by (simp add: errorsFor_def validateForm_append)

lemmas errorsFor_field = errorsFor_name errorsFor_email errorsFor_subject errorsFor_message

lemma trim_empty_iff: "trim v = [] \<longleftrightarrow> list_all isWhiteSpace v"
proof
  assume "list_all isWhiteSpace v"
  then have "dropWhile isWhiteSpace v = []"
    by (simp add: list_all_iff)
  then show "trim v = []"
    by (simp add: trim_def del: dropWhile_eq_Nil_conv)
next
  assume "trim v = []"
  then have all: "\<forall>x\<in>set (dropWhile isWhiteSpace v). isWhiteSpace x"
    by (simp add: trim_def)
  have "dropWhile isWhiteSpace v = []"
  proof (rule ccontr)
    assume ne: "dropWhile isWhiteSpace v \<noteq> []"
    then have "\<not> isWhiteSpace (hd (dropWhile isWhiteSpace v))"
      by (rule hd_dropWhile)
    moreover from ne have "hd (dropWhile isWhiteSpace v) \<in> set (dropWhile isWhiteSpace v)"
      by simp
    ultimately show False using all by blast
  qed
  then show "list_all isWhiteSpace v"
    by (simp add: list_all_iff)
qed

section \<open>The strings that the email pattern accepts\<close>

lemma star_single: "w \<in> star {[c] | c. P c} \<longleftrightarrow> (\<forall>c\<in>set w. P c)"
proof
  assume "w \<in> star {[c] | c. P c}"
  then show "\<forall>c\<in>set w. P c"
    by (induction rule: star.induct) auto
next
  assume "\<forall>c\<in>set w. P c"
  then show "w \<in> star {[c] | c. P c}"
  proof (induction w)
    case Nil
    show ?case by (rule star_nil)
  next
    case (Cons c w)
    then have "[c] \<in> {[c] | c. P c}" and "w \<in> star {[c] | c. P c}"
      by auto
    then have "[c] @ w \<in> star {[c] | c. P c}"
      by (rule star_app)
    then show ?case by simp
  qed
qed

lemma in_conc: "w \<in> conc A B \<longleftrightarrow> (\<exists>u v. w = u @ v \<and> u \<in> A \<and> v \<in> B)"
  by (auto simp: conc_def)

lemma takeWhile_until:
  "(\<forall>c\<in>set xs. P c) \<Longrightarrow> \<not> P y \<Longrightarrow> takeWhile P (xs @ y # ys) = xs"
  by (induction xs) auto

lemma concI: "u \<in> A \<Longrightarrow> v \<in> B \<Longrightarrow> u @ v \<in> conc A B"
  by (auto simp: conc_def)

lemma cons_concI: "w \<in> B \<Longrightarrow> c # w \<in> conc {[c]} B"
  using concI [of "[c]" "{[c]}" w B] by simp

lemma lang_emailRegex:
  "e \<in> lang emailRegex \<longleftrightarrow>
     (\<exists>l d t. e = l @ 0x40 # d @ 0x2E # t
        \<and> l \<in> lang (Plus (NotClass [ClassSpace, ClassChar 0x40]))
        \<and> d \<in> lang (Plus (NotClass [ClassSpace, ClassChar 0x40]))
        \<and> t \<in> lang (Plus (NotClass [ClassSpace, ClassChar 0x40])))"
  (is "_ \<longleftrightarrow> (\<exists>l d t. e = l @ 0x40 # d @ 0x2E # t \<and> l \<in> ?L \<and> d \<in> ?L \<and> t \<in> ?L)")
proof
  assume "e \<in> lang emailRegex"
  then show "\<exists>l d t. e = l @ 0x40 # d @ 0x2E # t \<and> l \<in> ?L \<and> d \<in> ?L \<and> t \<in> ?L"
    by (auto simp: emailRegex_def in_conc)
next
  assume "\<exists>l d t. e = l @ 0x40 # d @ 0x2E # t \<and> l \<in> ?L \<and> d \<in> ?L \<and> t \<in> ?L"
  then obtain l d t where e: "e = l @ 0x40 # d @ 0x2E # t"
      and l: "l \<in> ?L" and d: "d \<in> ?L" and t: "t \<in> ?L"
    by blast
  from t have "0x2E # t \<in> conc {[0x2E]} ?L"
    by (rule cons_concI)
  with d have "d @ 0x2E # t \<in> conc ?L (conc {[0x2E]} ?L)"
    by (rule concI)
  then have "0x40 # d @ 0x2E # t \<in> conc {[0x40]} (conc ?L (conc {[0x2E]} ?L))"
    by (rule cons_concI)
  with l have "l @ 0x40 # d @ 0x2E # t \<in> conc ?L (conc {[0x40]} (conc ?L (conc {[0x2E]} ?L)))"
    by (rule concI)
  then show "e \<in> lang emailRegex"
    by (simp add: emailRegex_def e)
qed

lemma lang_Plus_NotClass:
  "w \<in> lang (Plus (NotClass as)) \<longleftrightarrow>
     w \<noteq> [] \<and> (\<forall>c\<in>set w. \<not> list_ex (\<lambda>a. class_atom_matches a c) as)"
proof (cases w)
  case Nil
  then show ?thesis
    by (simp add: Plus_def in_conc)
next
  case (Cons a list)
  let ?A = "{[c] | c. \<not> list_ex (\<lambda>a. class_atom_matches a c) as}"
  have "a # list \<in> conc ?A (star ?A) \<longleftrightarrow>
          \<not> list_ex (\<lambda>b. class_atom_matches b a) as
          \<and> (\<forall>c\<in>set list. \<not> list_ex (\<lambda>a. class_atom_matches a c) as)"
  proof
    assume "a # list \<in> conc ?A (star ?A)"
    then show "\<not> list_ex (\<lambda>b. class_atom_matches b a) as
          \<and> (\<forall>c\<in>set list. \<not> list_ex (\<lambda>a. class_atom_matches a c) as)"
      by (auto simp: in_conc star_single Cons_eq_append_conv)
  next
    assume "\<not> list_ex (\<lambda>b. class_atom_matches b a) as
          \<and> (\<forall>c\<in>set list. \<not> list_ex (\<lambda>a. class_atom_matches a c) as)"
    then have "[a] \<in> ?A" and "list \<in> star ?A"
      by (simp_all add: star_single)
    then have "[a] @ list \<in> conc ?A (star ?A)"
      by (rule concI)
    then show "a # list \<in> conc ?A (star ?A)"
      by simp
  qed
  with Cons show ?thesis
    by (simp add: Plus_def)
qed

lemma isValidEmail_iff:
  "isValidEmail e \<longleftrightarrow>
     (\<exists>l d t. e = l @ 0x40 # d @ 0x2E # t \<and> l \<noteq> [] \<and> d \<noteq> [] \<and> t \<noteq> []
        \<and> (\<forall>c\<in>set (l @ d @ t). \<not> isWhiteSpace c \<and> c \<noteq> 0x40))"
  unfolding isValidEmail_def regex_test_lang lang_emailRegex lang_Plus_NotClass
  by (simp add: ball_Un) blast

lemma isValidEmail_at_dot:
  assumes "isValidEmail e"
  shows "0x40 \<in> set e \<and> 0x2E \<in> set (domainPart e)"
proof -
  from assms obtain l d t where e: "e = l @ 0x40 # d @ 0x2E # t"
      and noat: "\<forall>c\<in>set (l @ d @ t). \<not> isWhiteSpace c \<and> c \<noteq> 0x40"
    unfolding isValidEmail_iff by blast
  define xs where "xs = rev (d @ 0x2E # t)"
  have "rev e = xs @ 0x40 # rev l"
    by (simp add: e xs_def)
  moreover from noat have "\<forall>c\<in>set xs. c \<noteq> 0x40"
    by (auto simp: xs_def)
  ultimately have "takeWhile (\<lambda>c. c \<noteq> 0x40) (rev e) = xs"
    by (simp only: takeWhile_until [where P = "\<lambda>c. c \<noteq> 0x40"] simp_thms)
  then have "domainPart e = d @ 0x2E # t"
    by (simp add: domainPart_def xs_def)
  then show ?thesis
    by (simp add: e)
qed

lemma isValidEmail_example: "isValidEmail (js ''a@b.co'')"
  by (simp add: isValidEmail_def regex_test_def emailRegex_def Plus_def js_def isWhiteSpace_def)

section \<open>What the handlers leave alone\<close>

lemma find_update_first:
  assumes "\<And>x. el_name (f x) = el_name x" and "\<And>x. el_value (f x) = el_value x"
  shows "map_option el_value (find (\<lambda>e. el_name e = n) (update_first P f xs)) =
         map_option el_value (find (\<lambda>e. el_name e = n) xs)"
  by (induction xs) (simp_all add: assms)

lemma clearField_name [simp]: "el_name (clearField x) = el_name x"
  by (simp add: clearField_def Let_def split: option.split)

lemma clearField_value [simp]: "el_value (clearField x) = el_value x"
  by (simp add: clearField_def Let_def split: option.split)

lemma formData_get_update_by_id:
  "formData_get (update_by_id i clearField p) n = formData_get p n"
  by (simp add: formData_get_def update_by_id_def find_update_first)

lemma formData_get_clearErrors: "formData_get (clearErrors p) n = formData_get p n"
  by (simp add: clearErrors_def Let_def formData_get_update_by_id)
     (simp add: formData_get_def)

lemma formData_get_perform: "formData_get (perform e p) n = formData_get p n"
  by (simp add: formData_get_def perform_def)

lemma formRecord_clearErrors: "formRecord (clearErrors (perform e p)) = formRecord p"
  by (simp only: formRecord_def formData_get_clearErrors formData_get_perform)

lemma formRecord_fields:
  assumes "formRecord p = Some d"
  shows "\<exists>n e s m.
      formData_get p (js ''name'') = Some n \<and> formData_get p (js ''email'') = Some e
      \<and> formData_get p (js ''subject'') = Some s \<and> formData_get p (js ''message'') = Some m
      \<and> d = \<lparr>name = trim n, email = trim e, subject = trim s, message = trim m\<rparr>"
  using assms by (auto simp: formRecord_def split: option.splits)

lemma clearErrors_frame:
  "submit_btn_disabled (clearErrors p) = submit_btn_disabled p"
  "btn_text (clearErrors p) = btn_text p"
  "icon_data_lucide (clearErrors p) = icon_data_lucide p"
  "icon_classList (clearErrors p) = icon_classList p"
  "timers (clearErrors p) = timers p"
  "effects (clearErrors p) = effects p"
  by (simp_all add: clearErrors_def Let_def update_by_id_def)

lemma showError_frame:
  "submit_btn_disabled (showError p e) = submit_btn_disabled p"
  "btn_text (showError p e) = btn_text p"
  "icon_data_lucide (showError p e) = icon_data_lucide p"
  "icon_classList (showError p e) = icon_classList p"
  "timers (showError p e) = timers p"
  "effects (showError p e) = effects p"
  "error_message_classList (showError p e) = error_message_classList p"
  "contact_form_classList (showError p e) = contact_form_classList p"
  by (simp_all add: showError_def Let_def update_by_id_def)

lemma foldl_showError_frame:
  "submit_btn_disabled (foldl showError p es) = submit_btn_disabled p"
  "btn_text (foldl showError p es) = btn_text p"
  "icon_data_lucide (foldl showError p es) = icon_data_lucide p"
  "icon_classList (foldl showError p es) = icon_classList p"
  "timers (foldl showError p es) = timers p"
  "effects (foldl showError p es) = effects p"
  by (induction es arbitrary: p) (simp_all add: showError_frame)

lemma showErrors_frame:
  "submit_btn_disabled (showErrors es p) = submit_btn_disabled p"
  "btn_text (showErrors es p) = btn_text p"
  "icon_data_lucide (showErrors es p) = icon_data_lucide p"
  "icon_classList (showErrors es p) = icon_classList p"
  "timers (showErrors es p) = timers p @ [(RemoveShake, 500)]"
  "effects (showErrors es p) = effects p @ [ScrollIntoView (js ''error-message'')]"
  by (simp_all add: showErrors_def Let_def setTimeout_def perform_def foldl_showError_frame)

lemma perform_frame:
  "submit_btn_disabled (perform e p) = submit_btn_disabled p"
  "btn_text (perform e p) = btn_text p"
  "icon_data_lucide (perform e p) = icon_data_lucide p"
  "icon_classList (perform e p) = icon_classList p"
  "timers (perform e p) = timers p"
  "effects (perform e p) = effects p @ [e]"
  by (simp_all add: perform_def)

lemma onSubmit_invalid:
  assumes "formRecord p = Some d" and "validateForm d \<noteq> []"
  shows "onSubmit p = Returned (showErrors (validateForm d) (clearErrors (perform PreventDefault p)))"
  using assms by (simp add: onSubmit_def Let_def formRecord_clearErrors)

lemma onSubmit_valid:
  assumes "formRecord p = Some d" and "validateForm d = []"
  shows "onSubmit p =
    Returned (setTimeout (CallSubmitForm d) 1500 (showLoading (clearErrors (perform PreventDefault p))))"
  using assms by (simp add: onSubmit_def Let_def formRecord_clearErrors)

lemma onSubmit_throws:
  assumes "formRecord p = None"
  shows "onSubmit p = Threw TypeError (clearErrors (perform PreventDefault p))"
  using assms by (simp add: onSubmit_def Let_def formRecord_clearErrors)

section \<open>Blur without an error\<close>

lemma validateSingleField_no_error:
  "fieldError (el_name fld) (trim (el_value fld)) = None \<Longrightarrow> validateSingleField fld = fld"
  by (simp add: validateSingleField_def)

lemma fieldError_other_name:
  "n \<notin> {js ''name'', js ''email'', js ''subject'', js ''message''} \<Longrightarrow> fieldError n v = None"
  by (simp add: fieldError_def)

section \<open>The submit button\<close>

lemma button_showLoading: "button (showLoading p) = (True, js ''Sending...'')"
  by (simp add: button_def showLoading_def Let_def perform_def)

lemma button_resetButton: "button (resetButton p) = (False, js ''Launch Message'')"
  by (simp add: button_def resetButton_def Let_def perform_def)

lemma button_clearErrors: "button (clearErrors p) = button p"
  by (simp add: button_def clearErrors_frame)

lemma button_showErrors: "button (showErrors es p) = button p"
  by (simp add: button_def showErrors_frame)

lemma button_perform: "button (perform e p) = button p"
  by (simp add: button_def perform_def)

lemma button_setTimeout: "button (setTimeout cb ms p) = button p"
  by (simp add: button_def setTimeout_def)

lemma button_submitForm: "button (submitForm d p) = (False, js ''Launch Message'')"
  by (simp add: submitForm_def Let_def button_setTimeout button_perform button_resetButton)

lemma button_controls_update: "button (p\<lparr>controls := cs\<rparr>) = button p"
  by (simp add: button_def)

lemma button_timers_update: "button (p\<lparr>timers := ts\<rparr>) = button p"
  by (simp add: button_def)

lemma button_onSubmit:
  "button (page_of (onSubmit p)) =
     (if entersLoading Submit p then (True, js ''Sending...'') else button p)"
proof (cases "formRecord p")
  case None
  then show ?thesis
    by (simp add: onSubmit_throws entersLoading_def button_clearErrors button_perform)
next
  case (Some d)
  show ?thesis
  proof (cases "validateForm d = []")
    case True
    with Some show ?thesis
      by (simp add: onSubmit_valid entersLoading_def button_setTimeout button_showLoading)
  next
    case False
    with Some show ?thesis
      by (simp add: onSubmit_invalid entersLoading_def button_showErrors button_clearErrors
          button_perform)
  qed
qed

lemma button_run_callback:
  "button (run_callback cb p) =
     (case cb of CallSubmitForm d \<Rightarrow> (False, js ''Launch Message'') | _ \<Rightarrow> button p)"
  by (cases cb) (simp_all add: button_submitForm, simp_all add: button_def)

lemma button_step:
  "button (page_of (step ev p)) =
     (if entersLoading ev p then (True, js ''Sending...'')
      else if stubResolves ev p then (False, js ''Launch Message'')
      else button p)"
proof (cases ev)
  case Submit
  then show ?thesis
    by (simp add: button_onSubmit) (simp add: stubResolves_def)
next
  case (Blur i)
  then show ?thesis
    by (simp add: entersLoading_def stubResolves_def button_controls_update)
next
  case (Input i v)
  then show ?thesis
    by (simp add: entersLoading_def stubResolves_def button_controls_update)
next
  case (Timeout k)
  then show ?thesis
    by (simp add: entersLoading_def stubResolves_def button_run_callback button_timers_update
        split: callback.split)
qed

section \<open>Blank values on both paths\<close>

lemma errorsFor_nonempty: "errorsFor f es \<noteq> [] \<Longrightarrow> es \<noteq> []"
  by (auto simp: errorsFor_def)

lemma validateSingleField_blank:
  assumes "list_all isWhiteSpace (el_value fld)"
  shows "(el_name fld = js ''name'' \<longrightarrow>
            validateSingleField fld = markInvalid (js ''Name is required'') fld)
       \<and> (el_name fld = js ''email'' \<longrightarrow>
            validateSingleField fld = markInvalid (js ''Email is required'') fld)
       \<and> (el_name fld = js ''subject'' \<longrightarrow>
            validateSingleField fld = markInvalid (js ''Subject is required'') fld)
       \<and> (el_name fld = js ''message'' \<longrightarrow>
            validateSingleField fld = markInvalid (js ''Message is required'') fld)"
proof -
  from assms have "trim (el_value fld) = []"
    by (simp add: trim_empty_iff)
  then show ?thesis
    by (simp add: validateSingleField_def fieldError_def field_names_distinct js_def)
qed

lemma formRecord_blank:
  assumes "formRecord p = Some d"
  shows "(formData_get p (js ''name'') = Some n \<and> list_all isWhiteSpace n \<longrightarrow> name d = [])
       \<and> (formData_get p (js ''email'') = Some e \<and> list_all isWhiteSpace e \<longrightarrow> email d = [])
       \<and> (formData_get p (js ''subject'') = Some s \<and> list_all isWhiteSpace s \<longrightarrow> subject d = [])
       \<and> (formData_get p (js ''message'') = Some m \<and> list_all isWhiteSpace m \<longrightarrow> message d = [])"
  using formRecord_fields [OF assms] by (auto simp: trim_empty_iff)

lemma onSubmit_field_error:
  assumes "formRecord p = Some d" and "errorsFor f (validateForm d) = [x]"
  shows "onSubmit p =
    Returned (showErrors (validateForm d) (clearErrors (perform PreventDefault p)))"
proof -
  from assms(2) have "validateForm d \<noteq> []"
    using errorsFor_nonempty [of f "validateForm d"] by simp
  with assms(1) show ?thesis
    by (rule onSubmit_invalid)
qed

section \<open>The claims\<close>

text \<open>
  Claim C1. For every \<open>data\<close> object, \<open>validateForm\<close> gives at most one error for any
  field name, and a field whose (trimmed) value is the empty string gets its "required"
  message and nothing else: the required check comes first in each \<open>if\<close>/\<open>else if\<close>
  chain, so the length or pattern message cannot appear for an empty value.
\<close>

theorem one_error_per_field:
  "length (errorsFor f (validateForm d)) \<le> 1
   \<and> (name d = [] \<longrightarrow> errorsFor (js ''name'') (validateForm d) =
         [\<lparr>field = js ''name'', error_message = js ''Name is required''\<rparr>])
   \<and> (email d = [] \<longrightarrow> errorsFor (js ''email'') (validateForm d) =
         [\<lparr>field = js ''email'', error_message = js ''Email is required''\<rparr>])
   \<and> (subject d = [] \<longrightarrow> errorsFor (js ''subject'') (validateForm d) =
         [\<lparr>field = js ''subject'', error_message = js ''Subject is required''\<rparr>])
   \<and> (message d = [] \<longrightarrow> errorsFor (js ''message'') (validateForm d) =
         [\<lparr>field = js ''message'', error_message = js ''Message is required''\<rparr>])"
proof -
  have "length (errorsFor f (validateForm d)) \<le> 1"
  proof (cases "f = js ''name'' \<or> f = js ''email'' \<or> f = js ''subject'' \<or> f = js ''message''")
    case True
    then show ?thesis by (auto simp: errorsFor_field)
  next
    case False
    then show ?thesis by (simp add: errorsFor_other)
  qed
  then show ?thesis by (simp add: errorsFor_field)
qed

text \<open>Claim C1 at a concrete input.\<close>

theorem one_error_per_field_witness:
  "name \<lparr>name = js '''', email = js '''', subject = js '''', message = js ''''\<rparr> = []
   \<and> email \<lparr>name = js '''', email = js '''', subject = js '''', message = js ''''\<rparr> = []
   \<and> subject \<lparr>name = js '''', email = js '''', subject = js '''', message = js ''''\<rparr> = []
   \<and> message \<lparr>name = js '''', email = js '''', subject = js '''', message = js ''''\<rparr> = []
   \<and> length (errorsFor (js ''email'')
        (validateForm \<lparr>name = js '''', email = js '''', subject = js '''', message = js ''''\<rparr>)) \<le> 1
   \<and> errorsFor (js ''name'')
        (validateForm \<lparr>name = js '''', email = js '''', subject = js '''', message = js ''''\<rparr>) =
        [\<lparr>field = js ''name'', error_message = js ''Name is required''\<rparr>]
   \<and> errorsFor (js ''email'')
        (validateForm \<lparr>name = js '''', email = js '''', subject = js '''', message = js ''''\<rparr>) =
        [\<lparr>field = js ''email'', error_message = js ''Email is required''\<rparr>]
   \<and> errorsFor (js ''subject'')
        (validateForm \<lparr>name = js '''', email = js '''', subject = js '''', message = js ''''\<rparr>) =
        [\<lparr>field = js ''subject'', error_message = js ''Subject is required''\<rparr>]
   \<and> errorsFor (js ''message'')
        (validateForm \<lparr>name = js '''', email = js '''', subject = js '''', message = js ''''\<rparr>) =
        [\<lparr>field = js ''message'', error_message = js ''Message is required''\<rparr>]"
  using one_error_per_field [of "js ''email''"
      "\<lparr>name = js '''', email = js '''', subject = js '''', message = js ''''\<rparr>"]
  by (simp add: js_def)

text \<open>
  Claim C2, as the code has it. When the switch of \<open>validateSingleField\<close> leaves
  \<open>error\<close> at \<open>null\<close>, the function does nothing: the field, its classes and the
  element after it stay exactly as they were. A mark that is already there is therefore
  not removed on blur; removing it is the work of the input handler and of
  \<open>clearErrors\<close> at the next submit.
\<close>

theorem blur_without_error_changes_nothing:
  assumes "fieldError (el_name fld) (trim (el_value fld)) = None"
  shows "validateSingleField fld = fld
    \<and> el_classList (validateSingleField fld) = el_classList fld
    \<and> el_nextElementSibling (validateSingleField fld) = el_nextElementSibling fld"
  using validateSingleField_no_error [OF assms] by simp

text \<open>Claim C2 at a concrete input.\<close>

theorem blur_without_error_changes_nothing_witness:
  "fieldError (js ''name'') (trim (js '' Al '')) = None
   \<and> validateSingleField
        \<lparr>el_id = js ''name'', el_name = js ''name'', el_value = js '' Al '',
          el_defaultValue = js '''', el_classList = [js ''border-gray-300''],
          el_nextElementSibling =
            Some \<lparr>sib_classList = [js ''error-message'', js ''hidden''], sib_textContent = js ''''\<rparr>\<rparr>
     = \<lparr>el_id = js ''name'', el_name = js ''name'', el_value = js '' Al '',
          el_defaultValue = js '''', el_classList = [js ''border-gray-300''],
          el_nextElementSibling =
            Some \<lparr>sib_classList = [js ''error-message'', js ''hidden''], sib_textContent = js ''''\<rparr>\<rparr>"
  using blur_without_error_changes_nothing [of
      "\<lparr>el_id = js ''name'', el_name = js ''name'', el_value = js '' Al '',
          el_defaultValue = js '''', el_classList = [js ''border-gray-300''],
          el_nextElementSibling =
            Some \<lparr>sib_classList = [js ''error-message'', js ''hidden''], sib_textContent = js ''''\<rparr>\<rparr>"]
  by (simp add: fieldError_def trim_def js_def isWhiteSpace_def)

text \<open>
  Claim C2 as stated fails: a field named \<open>name\<close> holding the valid value \<open>Al\<close>
  and carrying the classes \<open>border-red-500\<close> and \<open>bg-red-50\<close>, followed by a visible
  error element, validates without error on blur and is returned unchanged, still marked
  and with its message still shown.
\<close>

theorem blur_does_not_clear_counterexample:
  "fieldError (js ''name'') (trim (js ''Al'')) = None
   \<and> validateSingleField
        \<lparr>el_id = js ''name'', el_name = js ''name'', el_value = js ''Al'',
          el_defaultValue = js ''Al'', el_classList = [js ''border-red-500'', js ''bg-red-50''],
          el_nextElementSibling =
            Some \<lparr>sib_classList = [js ''error-message''],
                   sib_textContent = js ''Name is required''\<rparr>\<rparr>
     = \<lparr>el_id = js ''name'', el_name = js ''name'', el_value = js ''Al'',
          el_defaultValue = js ''Al'', el_classList = [js ''border-red-500'', js ''bg-red-50''],
          el_nextElementSibling =
            Some \<lparr>sib_classList = [js ''error-message''],
                   sib_textContent = js ''Name is required''\<rparr>\<rparr>
   \<and> classList_contains [js ''border-red-500'', js ''bg-red-50''] (js ''border-red-500'')
   \<and> classList_contains [js ''border-red-500'', js ''bg-red-50''] (js ''bg-red-50'')
   \<and> \<not> classList_contains [js ''error-message''] (js ''hidden'')"
  by (simp add: validateSingleField_def fieldError_def trim_def js_def isWhiteSpace_def
      classList_contains_def Let_def)

text \<open>
  Such a field arises on a page whose name field is pre-filled with a valid default: the
  form is submitted with valid data, the user shortens the name to \<open>A\<close> and leaves the
  field (it is marked), the deferred \<open>submitForm\<close> resets the form to the default
  \<open>Al\<close> without touching the classes, and the next blur validates without error and
  leaves the mark and the message of the earlier error in place.
\<close>

lemma stale_mark_reachable:
  "controls (run [Submit, Input 0 (js ''A''), Blur 0, Timeout 0, Blur 0]
     \<lparr>controls =
        [\<lparr>el_id = js ''name'', el_name = js ''name'', el_value = js ''Al'',
           el_defaultValue = js ''Al'', el_classList = [js ''border-gray-300''],
           el_nextElementSibling =
             Some \<lparr>sib_classList = [js ''error-message'', js ''hidden''], sib_textContent = js ''''\<rparr>\<rparr>,
         \<lparr>el_id = js ''email'', el_name = js ''email'', el_value = js ''a@b.co'',
           el_defaultValue = js '''', el_classList = [js ''border-gray-300''],
           el_nextElementSibling = None\<rparr>,
         \<lparr>el_id = js ''subject'', el_name = js ''subject'', el_value = js ''Hi there'',
           el_defaultValue = js '''', el_classList = [js ''border-gray-300''],
           el_nextElementSibling = None\<rparr>,
         \<lparr>el_id = js ''message'', el_name = js ''message'', el_value = js ''1234567890'',
           el_defaultValue = js '''', el_classList = [js ''border-gray-300''],
           el_nextElementSibling = None\<rparr>],
      error_message_classList = [js ''hidden''], error_list = [],
      success_message_classList = [js ''hidden''], contact_form_classList = [],
      submit_btn_disabled = False, btn_text = js ''Launch Message'',
      icon_data_lucide = js ''send'', icon_classList = [], timers = [], effects = []\<rparr>) ! 0
   = \<lparr>el_id = js ''name'', el_name = js ''name'', el_value = js ''Al'',
       el_defaultValue = js ''Al'', el_classList = [js ''border-red-500'', js ''bg-red-50''],
       el_nextElementSibling =
         Some \<lparr>sib_classList = [js ''error-message''],
                sib_textContent = js ''Name must be at least 2 characters''\<rparr>\<rparr>"
  by (simp add: onSubmit_def formRecord_def formData_get_def clearErrors_def clearField_def
      update_by_id_def perform_def setTimeout_def showLoading_def submitForm_def form_reset_def
      resetButton_def validateSingleField_def fieldError_def markInvalid_def onInput_def
      validateForm_append isValidEmail_def regex_test_def emailRegex_def Plus_def
      classList_contains_def classList_add_def classList_remove_def
      trim_def js_def isWhiteSpace_def Let_def)

text \<open>
  Claim C3. When the record built by the submit handler has validation errors, the
  handler returns after \<open>showErrors\<close>: the button's disabled flag, its label and its icon
  are as before the event, the only timer added is the one that removes the shake class
  (no \<open>submitForm\<close> call is scheduled), and the only effects are \<open>preventDefault\<close> and
  the scroll to the error summary (\<open>showLoading\<close> would have called
  \<open>lucide.createIcons\<close>).
\<close>

theorem invalid_submit_never_loads:
  assumes "formRecord p = Some d" and "validateForm d \<noteq> []"
  shows "onSubmit p = Returned (showErrors (validateForm d) (clearErrors (perform PreventDefault p)))
    \<and> submit_btn_disabled (page_of (onSubmit p)) = submit_btn_disabled p
    \<and> btn_text (page_of (onSubmit p)) = btn_text p
    \<and> icon_data_lucide (page_of (onSubmit p)) = icon_data_lucide p
    \<and> icon_classList (page_of (onSubmit p)) = icon_classList p
    \<and> timers (page_of (onSubmit p)) = timers p @ [(RemoveShake, 500)]
    \<and> effects (page_of (onSubmit p)) =
        effects p @ [PreventDefault, ScrollIntoView (js ''error-message'')]"
  by (simp add: onSubmit_invalid [OF assms] showErrors_frame clearErrors_frame perform_frame)

text \<open>Claim C3 at a concrete input.\<close>

theorem invalid_submit_never_loads_witness:
  "formRecord
     \<lparr>controls =
        [\<lparr>el_id = js ''name'', el_name = js ''name'', el_value = js '' '',
           el_defaultValue = js '''', el_classList = [], el_nextElementSibling = None\<rparr>,
         \<lparr>el_id = js ''email'', el_name = js ''email'', el_value = js ''a@b.co'',
           el_defaultValue = js '''', el_classList = [], el_nextElementSibling = None\<rparr>,
         \<lparr>el_id = js ''subject'', el_name = js ''subject'', el_value = js ''Hi there'',
           el_defaultValue = js '''', el_classList = [], el_nextElementSibling = None\<rparr>,
         \<lparr>el_id = js ''message'', el_name = js ''message'', el_value = js ''1234567890'',
           el_defaultValue = js '''', el_classList = [], el_nextElementSibling = None\<rparr>],
      error_message_classList = [js ''hidden''], error_list = [],
      success_message_classList = [js ''hidden''], contact_form_classList = [],
      submit_btn_disabled = False, btn_text = js ''Launch Message'',
      icon_data_lucide = js ''send'', icon_classList = [], timers = [], effects = []\<rparr>
    = Some \<lparr>name = js '''', email = js ''a@b.co'', subject = js ''Hi there'',
             message = js ''1234567890''\<rparr>
   \<and> validateForm \<lparr>name = js '''', email = js ''a@b.co'', subject = js ''Hi there'',
             message = js ''1234567890''\<rparr> \<noteq> []
   \<and> submit_btn_disabled (page_of (onSubmit
     \<lparr>controls =
        [\<lparr>el_id = js ''name'', el_name = js ''name'', el_value = js '' '',
           el_defaultValue = js '''', el_classList = [], el_nextElementSibling = None\<rparr>,
         \<lparr>el_id = js ''email'', el_name = js ''email'', el_value = js ''a@b.co'',
           el_defaultValue = js '''', el_classList = [], el_nextElementSibling = None\<rparr>,
         \<lparr>el_id = js ''subject'', el_name = js ''subject'', el_value = js ''Hi there'',
           el_defaultValue = js '''', el_classList = [], el_nextElementSibling = None\<rparr>,
         \<lparr>el_id = js ''message'', el_name = js ''message'', el_value = js ''1234567890'',
           el_defaultValue = js '''', el_classList = [], el_nextElementSibling = None\<rparr>],
      error_message_classList = [js ''hidden''], error_list = [],
      success_message_classList = [js ''hidden''], contact_form_classList = [],
      submit_btn_disabled = False, btn_text = js ''Launch Message'',
      icon_data_lucide = js ''send'', icon_classList = [], timers = [], effects = []\<rparr>)) = False
   \<and> timers (page_of (onSubmit
     \<lparr>controls =
        [\<lparr>el_id = js ''name'', el_name = js ''name'', el_value = js '' '',
           el_defaultValue = js '''', el_classList = [], el_nextElementSibling = None\<rparr>,
         \<lparr>el_id = js ''email'', el_name = js ''email'', el_value = js ''a@b.co'',
           el_defaultValue = js '''', el_classList = [], el_nextElementSibling = None\<rparr>,
         \<lparr>el_id = js ''subject'', el_name = js ''subject'', el_value = js ''Hi there'',
           el_defaultValue = js '''', el_classList = [], el_nextElementSibling = None\<rparr>,
         \<lparr>el_id = js ''message'', el_name = js ''message'', el_value = js ''1234567890'',
           el_defaultValue = js '''', el_classList = [], el_nextElementSibling = None\<rparr>],
      error_message_classList = [js ''hidden''], error_list = [],
      success_message_classList = [js ''hidden''], contact_form_classList = [],
      submit_btn_disabled = False, btn_text = js ''Launch Message'',
      icon_data_lucide = js ''send'', icon_classList = [], timers = [], effects = []\<rparr>))
     = [(RemoveShake, 500)]"
  (is "formRecord ?p = Some ?d \<and> _ \<and> _ \<and> _")
proof -
  have r: "formRecord ?p = Some ?d"
    by (simp add: formRecord_def formData_get_def field_names_distinct trim_def js_def
        isWhiteSpace_def)
  have v: "validateForm ?d \<noteq> []"
    by (simp add: validateForm_append js_def)
  note t = invalid_submit_never_loads [OF r v]
  from t have b: "submit_btn_disabled (page_of (onSubmit ?p)) = submit_btn_disabled ?p"
    by blast
  from t have ts: "timers (page_of (onSubmit ?p)) = timers ?p @ [(RemoveShake, 500)]"
    by blast
  from b have b': "submit_btn_disabled (page_of (onSubmit ?p)) = False"
    by simp
  from ts have ts': "timers (page_of (onSubmit ?p)) = [(RemoveShake, 500)]"
    by simp
  from r v b' ts' show ?thesis
    by (intro conjI)
qed

text \<open>
  Claim C4. On the record whose four fields are the empty string, \<open>validateForm\<close>
  returns exactly four errors, the "required" error of name, email, subject and message,
  in that order.
\<close>

theorem all_empty_four_errors:
  "validateForm \<lparr>name = js '''', email = js '''', subject = js '''', message = js ''''\<rparr> =
     [\<lparr>field = js ''name'', error_message = js ''Name is required''\<rparr>,
      \<lparr>field = js ''email'', error_message = js ''Email is required''\<rparr>,
      \<lparr>field = js ''subject'', error_message = js ''Subject is required''\<rparr>,
      \<lparr>field = js ''message'', error_message = js ''Message is required''\<rparr>]"
  by (simp add: validateForm_append js_def)

text \<open>
  Claim C5. For each of the four fields, a raw value that is empty or made of white
  space only gives that field's "required" error and no other error for the field. On
  the submit path: when the handler's record \<open>formRecord\<close> (lines 29 to 35, which
  trim each \<open>formData.get\<close>) is built from a page whose control of that name holds
  such a value, \<open>validateForm\<close> reports exactly the required error for the field and
  the handler returns after showing the errors. On the blur path:
  \<open>validateSingleField\<close> (which trims \<open>field.value\<close>) marks the field with the
  required message.
\<close>

theorem blank_value_required_error:
  "(formRecord p = Some d \<and> formData_get p (js ''name'') = Some n \<and> list_all isWhiteSpace n \<longrightarrow>
      errorsFor (js ''name'') (validateForm d) =
        [\<lparr>field = js ''name'', error_message = js ''Name is required''\<rparr>]
      \<and> onSubmit p =
        Returned (showErrors (validateForm d) (clearErrors (perform PreventDefault p))))
   \<and> (formRecord p = Some d \<and> formData_get p (js ''email'') = Some e \<and> list_all isWhiteSpace e \<longrightarrow>
      errorsFor (js ''email'') (validateForm d) =
        [\<lparr>field = js ''email'', error_message = js ''Email is required''\<rparr>]
      \<and> onSubmit p =
        Returned (showErrors (validateForm d) (clearErrors (perform PreventDefault p))))
   \<and> (formRecord p = Some d \<and> formData_get p (js ''subject'') = Some s \<and> list_all isWhiteSpace s \<longrightarrow>
      errorsFor (js ''subject'') (validateForm d) =
        [\<lparr>field = js ''subject'', error_message = js ''Subject is required''\<rparr>]
      \<and> onSubmit p =
        Returned (showErrors (validateForm d) (clearErrors (perform PreventDefault p))))
   \<and> (formRecord p = Some d \<and> formData_get p (js ''message'') = Some m \<and> list_all isWhiteSpace m \<longrightarrow>
      errorsFor (js ''message'') (validateForm d) =
        [\<lparr>field = js ''message'', error_message = js ''Message is required''\<rparr>]
      \<and> onSubmit p =
        Returned (showErrors (validateForm d) (clearErrors (perform PreventDefault p))))
   \<and> (list_all isWhiteSpace (el_value fld) \<longrightarrow>
        (el_name fld = js ''name'' \<longrightarrow>
           validateSingleField fld = markInvalid (js ''Name is required'') fld)
      \<and> (el_name fld = js ''email'' \<longrightarrow>
           validateSingleField fld = markInvalid (js ''Email is required'') fld)
      \<and> (el_name fld = js ''subject'' \<longrightarrow>
           validateSingleField fld = markInvalid (js ''Subject is required'') fld)
      \<and> (el_name fld = js ''message'' \<longrightarrow>
           validateSingleField fld = markInvalid (js ''Message is required'') fld))"
proof (intro conjI impI; (elim conjE)?)
  assume r: "formRecord p = Some d" and "formData_get p (js ''name'') = Some n"
    and "list_all isWhiteSpace n"
  then have "name d = []"
    using formRecord_blank [OF r, of n e s m] by simp
  then show x: "errorsFor (js ''name'') (validateForm d) =
        [\<lparr>field = js ''name'', error_message = js ''Name is required''\<rparr>]"
    by (simp add: errorsFor_name)
  show "onSubmit p = Returned (showErrors (validateForm d) (clearErrors (perform PreventDefault p)))"
    using r x by (rule onSubmit_field_error)
next
  assume r: "formRecord p = Some d" and "formData_get p (js ''email'') = Some e"
    and "list_all isWhiteSpace e"
  then have "email d = []"
    using formRecord_blank [OF r, of n e s m] by simp
  then show x: "errorsFor (js ''email'') (validateForm d) =
        [\<lparr>field = js ''email'', error_message = js ''Email is required''\<rparr>]"
    by (simp add: errorsFor_email)
  show "onSubmit p = Returned (showErrors (validateForm d) (clearErrors (perform PreventDefault p)))"
    using r x by (rule onSubmit_field_error)
next
  assume r: "formRecord p = Some d" and "formData_get p (js ''subject'') = Some s"
    and "list_all isWhiteSpace s"
  then have "subject d = []"
    using formRecord_blank [OF r, of n e s m] by simp
  then show x: "errorsFor (js ''subject'') (validateForm d) =
        [\<lparr>field = js ''subject'', error_message = js ''Subject is required''\<rparr>]"
    by (simp add: errorsFor_subject)
  show "onSubmit p = Returned (showErrors (validateForm d) (clearErrors (perform PreventDefault p)))"
    using r x by (rule onSubmit_field_error)
next
  assume r: "formRecord p = Some d" and "formData_get p (js ''message'') = Some m"
    and "list_all isWhiteSpace m"
  then have "message d = []"
    using formRecord_blank [OF r, of n e s m] by simp
  then show x: "errorsFor (js ''message'') (validateForm d) =
        [\<lparr>field = js ''message'', error_message = js ''Message is required''\<rparr>]"
    by (simp add: errorsFor_message)
  show "onSubmit p = Returned (showErrors (validateForm d) (clearErrors (perform PreventDefault p)))"
    using r x by (rule onSubmit_field_error)
next
  assume "list_all isWhiteSpace (el_value fld)" and "el_name fld = js ''name''"
  then show "validateSingleField fld = markInvalid (js ''Name is required'') fld"
    using validateSingleField_blank [of fld] by simp
next
  assume "list_all isWhiteSpace (el_value fld)" and "el_name fld = js ''email''"
  then show "validateSingleField fld = markInvalid (js ''Email is required'') fld"
    using validateSingleField_blank [of fld] by simp
next
  assume "list_all isWhiteSpace (el_value fld)" and "el_name fld = js ''subject''"
  then show "validateSingleField fld = markInvalid (js ''Subject is required'') fld"
    using validateSingleField_blank [of fld] by simp
next
  assume "list_all isWhiteSpace (el_value fld)" and "el_name fld = js ''message''"
  then show "validateSingleField fld = markInvalid (js ''Message is required'') fld"
    using validateSingleField_blank [of fld] by simp
qed

text \<open>Claim C5 at a concrete input.\<close>

theorem blank_value_required_error_witness:
  "formRecord
     \<lparr>controls =
        [\<lparr>el_id = js ''name'', el_name = js ''name'', el_value = js ''  '',
           el_defaultValue = js '''', el_classList = [js ''border-gray-300''],
           el_nextElementSibling = None\<rparr>,
         \<lparr>el_id = js ''email'', el_name = js ''email'', el_value = [0x0009, 0x00A0],
           el_defaultValue = js '''', el_classList = [js ''border-gray-300''],
           el_nextElementSibling = None\<rparr>,
         \<lparr>el_id = js ''subject'', el_name = js ''subject'', el_value = js '''',
           el_defaultValue = js '''', el_classList = [js ''border-gray-300''],
           el_nextElementSibling = None\<rparr>,
         \<lparr>el_id = js ''message'', el_name = js ''message'', el_value = [0x000A, 0x2003, 0x0020],
           el_defaultValue = js '''', el_classList = [js ''border-gray-300''],
           el_nextElementSibling = None\<rparr>],
      error_message_classList = [js ''hidden''], error_list = [],
      success_message_classList = [js ''hidden''], contact_form_classList = [],
      submit_btn_disabled = False, btn_text = js ''Launch Message'',
      icon_data_lucide = js ''send'', icon_classList = [], timers = [], effects = []\<rparr>
    = Some \<lparr>name = [], email = [], subject = [], message = []\<rparr>
   \<and> formData_get
     \<lparr>controls =
        [\<lparr>el_id = js ''name'', el_name = js ''name'', el_value = js ''  '',
           el_defaultValue = js '''', el_classList = [js ''border-gray-300''],
           el_nextElementSibling = None\<rparr>,
         \<lparr>el_id = js ''email'', el_name = js ''email'', el_value = [0x0009, 0x00A0],
           el_defaultValue = js '''', el_classList = [js ''border-gray-300''],
           el_nextElementSibling = None\<rparr>,
         \<lparr>el_id = js ''subject'', el_name = js ''subject'', el_value = js '''',
           el_defaultValue = js '''', el_classList = [js ''border-gray-300''],
           el_nextElementSibling = None\<rparr>,
         \<lparr>el_id = js ''message'', el_name = js ''message'', el_value = [0x000A, 0x2003, 0x0020],
           el_defaultValue = js '''', el_classList = [js ''border-gray-300''],
           el_nextElementSibling = None\<rparr>],
      error_message_classList = [js ''hidden''], error_list = [],
      success_message_classList = [js ''hidden''], contact_form_classList = [],
      submit_btn_disabled = False, btn_text = js ''Launch Message'',
      icon_data_lucide = js ''send'', icon_classList = [], timers = [], effects = []\<rparr>
     (js ''name'') = Some (js ''  '')
   \<and> formData_get
     \<lparr>controls =
        [\<lparr>el_id = js ''name'', el_name = js ''name'', el_value = js ''  '',
           el_defaultValue = js '''', el_classList = [js ''border-gray-300''],
           el_nextElementSibling = None\<rparr>,
         \<lparr>el_id = js ''email'', el_name = js ''email'', el_value = [0x0009, 0x00A0],
           el_defaultValue = js '''', el_classList = [js ''border-gray-300''],
           el_nextElementSibling = None\<rparr>,
         \<lparr>el_id = js ''subject'', el_name = js ''subject'', el_value = js '''',
           el_defaultValue = js '''', el_classList = [js ''border-gray-300''],
           el_nextElementSibling = None\<rparr>,
         \<lparr>el_id = js ''message'', el_name = js ''message'', el_value = [0x000A, 0x2003, 0x0020],
           el_defaultValue = js '''', el_classList = [js ''border-gray-300''],
           el_nextElementSibling = None\<rparr>],
      error_message_classList = [js ''hidden''], error_list = [],
      success_message_classList = [js ''hidden''], contact_form_classList = [],
      submit_btn_disabled = False, btn_text = js ''Launch Message'',
      icon_data_lucide = js ''send'', icon_classList = [], timers = [], effects = []\<rparr>
     (js ''email'') = Some ([0x0009, 0x00A0])
   \<and> formData_get
     \<lparr>controls =
        [\<lparr>el_id = js ''name'', el_name = js ''name'', el_value = js ''  '',
           el_defaultValue = js '''', el_classList = [js ''border-gray-300''],
           el_nextElementSibling = None\<rparr>,
         \<lparr>el_id = js ''email'', el_name = js ''email'', el_value = [0x0009, 0x00A0],
           el_defaultValue = js '''', el_classList = [js ''border-gray-300''],
           el_nextElementSibling = None\<rparr>,
         \<lparr>el_id = js ''subject'', el_name = js ''subject'', el_value = js '''',
           el_defaultValue = js '''', el_classList = [js ''border-gray-300''],
           el_nextElementSibling = None\<rparr>,
         \<lparr>el_id = js ''message'', el_name = js ''message'', el_value = [0x000A, 0x2003, 0x0020],
           el_defaultValue = js '''', el_classList = [js ''border-gray-300''],
           el_nextElementSibling = None\<rparr>],
      error_message_classList = [js ''hidden''], error_list = [],
      success_message_classList = [js ''hidden''], contact_form_classList = [],
      submit_btn_disabled = False, btn_text = js ''Launch Message'',
      icon_data_lucide = js ''send'', icon_classList = [], timers = [], effects = []\<rparr>
     (js ''subject'') = Some (js '''')
   \<and> formData_get
     \<lparr>controls =
        [\<lparr>el_id = js ''name'', el_name = js ''name'', el_value = js ''  '',
           el_defaultValue = js '''', el_classList = [js ''border-gray-300''],
           el_nextElementSibling = None\<rparr>,
         \<lparr>el_id = js ''email'', el_name = js ''email'', el_value = [0x0009, 0x00A0],
           el_defaultValue = js '''', el_classList = [js ''border-gray-300''],
           el_nextElementSibling = None\<rparr>,
         \<lparr>el_id = js ''subject'', el_name = js ''subject'', el_value = js '''',
           el_defaultValue = js '''', el_classList = [js ''border-gray-300''],
           el_nextElementSibling = None\<rparr>,
         \<lparr>el_id = js ''message'', el_name = js ''message'', el_value = [0x000A, 0x2003, 0x0020],
           el_defaultValue = js '''', el_classList = [js ''border-gray-300''],
           el_nextElementSibling = None\<rparr>],
      error_message_classList = [js ''hidden''], error_list = [],
      success_message_classList = [js ''hidden''], contact_form_classList = [],
      submit_btn_disabled = False, btn_text = js ''Launch Message'',
      icon_data_lucide = js ''send'', icon_classList = [], timers = [], effects = []\<rparr>
     (js ''message'') = Some ([0x000A, 0x2003, 0x0020])
   \<and> list_all isWhiteSpace (js ''  '')
   \<and> list_all isWhiteSpace ([0x0009, 0x00A0])
   \<and> list_all isWhiteSpace (js '''')
   \<and> list_all isWhiteSpace ([0x000A, 0x2003, 0x0020])
   \<and> errorsFor (js ''name'') (validateForm \<lparr>name = [], email = [], subject = [], message = []\<rparr>) =
        [\<lparr>field = js ''name'', error_message = js ''Name is required''\<rparr>]
   \<and> errorsFor (js ''email'') (validateForm \<lparr>name = [], email = [], subject = [], message = []\<rparr>) =
        [\<lparr>field = js ''email'', error_message = js ''Email is required''\<rparr>]
   \<and> errorsFor (js ''subject'') (validateForm \<lparr>name = [], email = [], subject = [], message = []\<rparr>) =
        [\<lparr>field = js ''subject'', error_message = js ''Subject is required''\<rparr>]
   \<and> errorsFor (js ''message'') (validateForm \<lparr>name = [], email = [], subject = [], message = []\<rparr>) =
        [\<lparr>field = js ''message'', error_message = js ''Message is required''\<rparr>]
   \<and> validateSingleField
       \<lparr>el_id = js ''name'', el_name = js ''name'', el_value = js ''  '',
         el_defaultValue = js '''', el_classList = [js ''border-gray-300''],
         el_nextElementSibling = None\<rparr>
     = markInvalid (js ''Name is required'')
       \<lparr>el_id = js ''name'', el_name = js ''name'', el_value = js ''  '',
         el_defaultValue = js '''', el_classList = [js ''border-gray-300''],
         el_nextElementSibling = None\<rparr>
   \<and> validateSingleField
       \<lparr>el_id = js ''email'', el_name = js ''email'', el_value = [0x0009, 0x00A0],
         el_defaultValue = js '''', el_classList = [js ''border-gray-300''],
         el_nextElementSibling = None\<rparr>
     = markInvalid (js ''Email is required'')
       \<lparr>el_id = js ''email'', el_name = js ''email'', el_value = [0x0009, 0x00A0],
         el_defaultValue = js '''', el_classList = [js ''border-gray-300''],
         el_nextElementSibling = None\<rparr>
   \<and> validateSingleField
       \<lparr>el_id = js ''subject'', el_name = js ''subject'', el_value = js '''',
         el_defaultValue = js '''', el_classList = [js ''border-gray-300''],
         el_nextElementSibling = None\<rparr>
     = markInvalid (js ''Subject is required'')
       \<lparr>el_id = js ''subject'', el_name = js ''subject'', el_value = js '''',
         el_defaultValue = js '''', el_classList = [js ''border-gray-300''],
         el_nextElementSibling = None\<rparr>
   \<and> validateSingleField
       \<lparr>el_id = js ''message'', el_name = js ''message'', el_value = [0x000A, 0x2003, 0x0020],
         el_defaultValue = js '''', el_classList = [js ''border-gray-300''],
         el_nextElementSibling = None\<rparr>
     = markInvalid (js ''Message is required'')
       \<lparr>el_id = js ''message'', el_name = js ''message'', el_value = [0x000A, 0x2003, 0x0020],
         el_defaultValue = js '''', el_classList = [js ''border-gray-300''],
         el_nextElementSibling = None\<rparr>"
proof -
  let ?p = "\<lparr>controls =
              [\<lparr>el_id = js ''name'', el_name = js ''name'', el_value = js ''  '',
                 el_defaultValue = js '''', el_classList = [js ''border-gray-300''],
                 el_nextElementSibling = None\<rparr>,
               \<lparr>el_id = js ''email'', el_name = js ''email'', el_value = [0x0009, 0x00A0],
                 el_defaultValue = js '''', el_classList = [js ''border-gray-300''],
                 el_nextElementSibling = None\<rparr>,
               \<lparr>el_id = js ''subject'', el_name = js ''subject'', el_value = js '''',
                 el_defaultValue = js '''', el_classList = [js ''border-gray-300''],
                 el_nextElementSibling = None\<rparr>,
               \<lparr>el_id = js ''message'', el_name = js ''message'', el_value = [0x000A, 0x2003, 0x0020],
                 el_defaultValue = js '''', el_classList = [js ''border-gray-300''],
                 el_nextElementSibling = None\<rparr>],
            error_message_classList = [js ''hidden''], error_list = [],
            success_message_classList = [js ''hidden''], contact_form_classList = [],
            submit_btn_disabled = False, btn_text = js ''Launch Message'',
            icon_data_lucide = js ''send'', icon_classList = [], timers = [], effects = []\<rparr>"
  let ?d = "\<lparr>name = [], email = [], subject = [], message = []\<rparr>"
  let ?name = "\<lparr>el_id = js ''name'', el_name = js ''name'', el_value = js ''  '',
            el_defaultValue = js '''', el_classList = [js ''border-gray-300''],
            el_nextElementSibling = None\<rparr>"
  let ?email = "\<lparr>el_id = js ''email'', el_name = js ''email'', el_value = [0x0009, 0x00A0],
            el_defaultValue = js '''', el_classList = [js ''border-gray-300''],
            el_nextElementSibling = None\<rparr>"
  let ?subject = "\<lparr>el_id = js ''subject'', el_name = js ''subject'', el_value = js '''',
            el_defaultValue = js '''', el_classList = [js ''border-gray-300''],
            el_nextElementSibling = None\<rparr>"
  let ?message = "\<lparr>el_id = js ''message'', el_name = js ''message'', el_value = [0x000A, 0x2003, 0x0020],
            el_defaultValue = js '''', el_classList = [js ''border-gray-300''],
            el_nextElementSibling = None\<rparr>"
  have r: "formRecord ?p = Some ?d"
    by (simp add: formRecord_def formData_get_def field_names_distinct trim_def js_def
        isWhiteSpace_def)
  have g_name: "formData_get ?p (js ''name'') = Some (js ''  '')"
    by (simp add: formData_get_def field_names_distinct)
  have g_email: "formData_get ?p (js ''email'') = Some ([0x0009, 0x00A0])"
    by (simp add: formData_get_def field_names_distinct)
  have g_subject: "formData_get ?p (js ''subject'') = Some (js '''')"
    by (simp add: formData_get_def field_names_distinct)
  have g_message: "formData_get ?p (js ''message'') = Some ([0x000A, 0x2003, 0x0020])"
    by (simp add: formData_get_def field_names_distinct)
  have w_name: "list_all isWhiteSpace (js ''  '')"
    by (simp add: js_def isWhiteSpace_def)
  have w_email: "list_all isWhiteSpace ([0x0009, 0x00A0])"
    by (simp add: js_def isWhiteSpace_def)
  have w_subject: "list_all isWhiteSpace (js '''')"
    by (simp add: js_def isWhiteSpace_def)
  have w_message: "list_all isWhiteSpace ([0x000A, 0x2003, 0x0020])"
    by (simp add: js_def isWhiteSpace_def)
  have n_name: "el_name ?name = js ''name''" and v_name: "list_all isWhiteSpace (el_value ?name)"
    by (simp_all add: js_def isWhiteSpace_def)
  have n_email: "el_name ?email = js ''email''" and v_email: "list_all isWhiteSpace (el_value ?email)"
    by (simp_all add: js_def isWhiteSpace_def)
  have n_subject: "el_name ?subject = js ''subject''" and v_subject: "list_all isWhiteSpace (el_value ?subject)"
    by (simp_all add: js_def isWhiteSpace_def)
  have n_message: "el_name ?message = js ''message''" and v_message: "list_all isWhiteSpace (el_value ?message)"
    by (simp_all add: js_def isWhiteSpace_def)
  note t_name = blank_value_required_error [of "?p" "?d" "js ''  ''" "[0x0009, 0x00A0]" "js ''''" "[0x000A, 0x2003, 0x0020]" "?name"]
  note t_email = blank_value_required_error [of "?p" "?d" "js ''  ''" "[0x0009, 0x00A0]" "js ''''" "[0x000A, 0x2003, 0x0020]" "?email"]
  note t_subject = blank_value_required_error [of "?p" "?d" "js ''  ''" "[0x0009, 0x00A0]" "js ''''" "[0x000A, 0x2003, 0x0020]" "?subject"]
  note t_message = blank_value_required_error [of "?p" "?d" "js ''  ''" "[0x0009, 0x00A0]" "js ''''" "[0x000A, 0x2003, 0x0020]" "?message"]
  from t_name r g_name w_name have e_name: "errorsFor (js ''name'') (validateForm ?d) =
        [\<lparr>field = js ''name'', error_message = js ''Name is required''\<rparr>]"
    by blast
  from t_email r g_email w_email have e_email: "errorsFor (js ''email'') (validateForm ?d) =
        [\<lparr>field = js ''email'', error_message = js ''Email is required''\<rparr>]"
    by blast
  from t_subject r g_subject w_subject have e_subject: "errorsFor (js ''subject'') (validateForm ?d) =
        [\<lparr>field = js ''subject'', error_message = js ''Subject is required''\<rparr>]"
    by blast
  from t_message r g_message w_message have e_message: "errorsFor (js ''message'') (validateForm ?d) =
        [\<lparr>field = js ''message'', error_message = js ''Message is required''\<rparr>]"
    by blast
  from t_name n_name v_name have b_name: "validateSingleField ?name = markInvalid (js ''Name is required'') ?name"
    by blast
  from t_email n_email v_email have b_email: "validateSingleField ?email = markInvalid (js ''Email is required'') ?email"
    by blast
  from t_subject n_subject v_subject have b_subject: "validateSingleField ?subject = markInvalid (js ''Subject is required'') ?subject"
    by blast
  from t_message n_message v_message have b_message: "validateSingleField ?message = markInvalid (js ''Message is required'') ?message"
    by blast
  from r g_name g_email g_subject g_message w_name w_email w_subject w_message e_name e_email e_subject e_message b_name b_email b_subject b_message
  show ?thesis
    by (intro conjI)
qed

text \<open>
  Claim C6. A non-empty email value that has no \<open>@\<close>, or no dot among the code units
  after its last \<open>@\<close>, gets the error "Please enter a valid email address" (and only
  that one for the field), from \<open>validateForm\<close> and from the blur path alike; the value
  \<open>a@b.co\<close> gets no email error.
\<close>

theorem email_format_error:
  "(e \<noteq> [] \<and> (0x40 \<notin> set e \<or> 0x2E \<notin> set (domainPart e)) \<longrightarrow>
      errorsFor (js ''email'') (validateForm (d\<lparr>email := e\<rparr>)) =
        [\<lparr>field = js ''email'', error_message = js ''Please enter a valid email address''\<rparr>]
      \<and> fieldError (js ''email'') e = Some (js ''Please enter a valid email address''))
   \<and> errorsFor (js ''email'') (validateForm (d\<lparr>email := js ''a@b.co''\<rparr>)) = []
   \<and> fieldError (js ''email'') (js ''a@b.co'') = None"
proof -
  have "js ''a@b.co'' \<noteq> []"
    by (simp add: js_def)
  then show ?thesis
    using isValidEmail_at_dot [of e] isValidEmail_example
    by (auto simp: errorsFor_email fieldError_def field_names_distinct)
qed

text \<open>Claim C6 at a concrete input.\<close>

theorem email_format_error_witness:
  "js ''a.b@c'' \<noteq> [] \<and> 0x40 \<in> set (js ''a.b@c'') \<and> 0x2E \<notin> set (domainPart (js ''a.b@c''))
   \<and> errorsFor (js ''email'')
        (validateForm \<lparr>name = js ''Al'', email = js ''a.b@c'', subject = js ''Hi there'',
                        message = js ''1234567890''\<rparr>) =
        [\<lparr>field = js ''email'', error_message = js ''Please enter a valid email address''\<rparr>]"
  using email_format_error [of "js ''a.b@c''"
      "\<lparr>name = js ''Al'', email = js '''', subject = js ''Hi there'', message = js ''1234567890''\<rparr>"]
  by (simp add: js_def domainPart_def)

text \<open>
  Claim C7. For name, subject and message, with minimum lengths 2, 3 and 10: a value of
  length 1, 2 and 9 (one less than the minimum, hence not empty) gets the field's length
  error and only that one, and a value of length 2, 3 and 10 gets no error for the
  field.
\<close>

theorem length_boundaries:
  "(length n = 1 \<longrightarrow> errorsFor (js ''name'') (validateForm (d\<lparr>name := n\<rparr>)) =
      [\<lparr>field = js ''name'', error_message = js ''Name must be at least 2 characters''\<rparr>])
   \<and> (length n = 2 \<longrightarrow> errorsFor (js ''name'') (validateForm (d\<lparr>name := n\<rparr>)) = [])
   \<and> (length s = 2 \<longrightarrow> errorsFor (js ''subject'') (validateForm (d\<lparr>subject := s\<rparr>)) =
      [\<lparr>field = js ''subject'', error_message = js ''Subject must be at least 3 characters''\<rparr>])
   \<and> (length s = 3 \<longrightarrow> errorsFor (js ''subject'') (validateForm (d\<lparr>subject := s\<rparr>)) = [])
   \<and> (length m = 9 \<longrightarrow> errorsFor (js ''message'') (validateForm (d\<lparr>message := m\<rparr>)) =
      [\<lparr>field = js ''message'', error_message = js ''Message must be at least 10 characters''\<rparr>])
   \<and> (length m = 10 \<longrightarrow> errorsFor (js ''message'') (validateForm (d\<lparr>message := m\<rparr>)) = [])"
  by (auto simp: errorsFor_field)

text \<open>Claim C7 at a concrete input.\<close>

theorem length_boundaries_witness:
  "length (js ''A'') = 1 \<and> length (js ''Al'') = 2 \<and> length (js ''Hi'') = 2
   \<and> length (js ''Hey'') = 3 \<and> length (js ''123456789'') = 9 \<and> length (js ''1234567890'') = 10
   \<and> errorsFor (js ''name'')
        (validateForm \<lparr>name = js ''A'', email = js ''a@b.co'', subject = js ''Hi there'',
                        message = js ''Hello world''\<rparr>) =
        [\<lparr>field = js ''name'', error_message = js ''Name must be at least 2 characters''\<rparr>]
   \<and> errorsFor (js ''name'')
        (validateForm \<lparr>name = js ''Al'', email = js ''a@b.co'', subject = js ''Hi there'',
                        message = js ''Hello world''\<rparr>) = []
   \<and> errorsFor (js ''subject'')
        (validateForm \<lparr>name = js ''Al'', email = js ''a@b.co'', subject = js ''Hi'',
                        message = js ''Hello world''\<rparr>) =
        [\<lparr>field = js ''subject'', error_message = js ''Subject must be at least 3 characters''\<rparr>]
   \<and> errorsFor (js ''subject'')
        (validateForm \<lparr>name = js ''Al'', email = js ''a@b.co'', subject = js ''Hey'',
                        message = js ''Hello world''\<rparr>) = []
   \<and> errorsFor (js ''message'')
        (validateForm \<lparr>name = js ''Al'', email = js ''a@b.co'', subject = js ''Hi there'',
                        message = js ''123456789''\<rparr>) =
        [\<lparr>field = js ''message'', error_message = js ''Message must be at least 10 characters''\<rparr>]
   \<and> errorsFor (js ''message'')
        (validateForm \<lparr>name = js ''Al'', email = js ''a@b.co'', subject = js ''Hi there'',
                        message = js ''1234567890''\<rparr>) = []"
  using
    length_boundaries [of "js ''A''"
      "\<lparr>name = js ''Al'', email = js ''a@b.co'', subject = js ''Hi there'',
        message = js ''Hello world''\<rparr>" "js ''Hi''" "js ''123456789''"]
    length_boundaries [of "js ''Al''"
      "\<lparr>name = js ''Al'', email = js ''a@b.co'', subject = js ''Hi there'',
        message = js ''Hello world''\<rparr>" "js ''Hey''" "js ''1234567890''"]
  by (simp add: js_def)

text \<open>
  Claim C8. For each of the four field names and every value, the blur-time check
  \<open>fieldError\<close> and \<open>validateForm\<close> agree: the messages that \<open>validateForm\<close> reports
  for the field of a record holding that value are none when \<open>fieldError\<close> gives
  \<open>null\<close>, and exactly the message of \<open>fieldError\<close> otherwise.
\<close>

theorem validateField_agrees_with_validateForm:
  assumes "f \<in> {js ''name'', js ''email'', js ''subject'', js ''message''}"
    and "property d f = Some v"
  shows "map error_message (errorsFor f (validateForm d)) =
           (case fieldError f v of None \<Rightarrow> [] | Some m \<Rightarrow> [m])"
proof -
  from assms(1) consider "f = js ''name''" | "f = js ''email''" | "f = js ''subject''"
    | "f = js ''message''"
    by blast
  then show ?thesis
  proof cases
    case 1
    with assms(2) have "name d = v"
      by (simp add: property_def)
    with 1 show ?thesis
      by (simp add: fieldError_def errorsFor_name)
  next
    case 2
    with assms(2) have "email d = v"
      by (simp add: property_def field_names_distinct)
    with 2 show ?thesis
      by (simp add: fieldError_def errorsFor_email field_names_distinct)
  next
    case 3
    with assms(2) have "subject d = v"
      by (simp add: property_def field_names_distinct)
    with 3 show ?thesis
      by (simp add: fieldError_def errorsFor_subject field_names_distinct)
  next
    case 4
    with assms(2) have "message d = v"
      by (simp add: property_def field_names_distinct)
    with 4 show ?thesis
      by (simp add: fieldError_def errorsFor_message field_names_distinct)
  qed
qed

text \<open>Claim C8 at a concrete input.\<close>

theorem validateField_agrees_with_validateForm_witness:
  "js ''email'' \<in> {js ''name'', js ''email'', js ''subject'', js ''message''}
   \<and> property \<lparr>name = js ''Al'', email = js ''ab'', subject = js ''Hi there'',
                 message = js ''1234567890''\<rparr> (js ''email'') = Some (js ''ab'')
   \<and> fieldError (js ''email'') (js ''ab'') = Some (js ''Please enter a valid email address'')
   \<and> map error_message (errorsFor (js ''email'')
        (validateForm \<lparr>name = js ''Al'', email = js ''ab'', subject = js ''Hi there'',
                        message = js ''1234567890''\<rparr>)) =
        [js ''Please enter a valid email address'']"
proof -
  have f: "js ''email'' \<in> {js ''name'', js ''email'', js ''subject'', js ''message''}"
    by simp
  have v: "property \<lparr>name = js ''Al'', email = js ''ab'', subject = js ''Hi there'',
                 message = js ''1234567890''\<rparr> (js ''email'') = Some (js ''ab'')"
    by (simp add: property_def field_names_distinct)
  have e: "fieldError (js ''email'') (js ''ab'') = Some (js ''Please enter a valid email address'')"
    by (simp add: fieldError_def field_names_distinct isValidEmail_def regex_test_def
        emailRegex_def Plus_def js_def isWhiteSpace_def)
  show ?thesis
    using validateField_agrees_with_validateForm [OF f v] f v e by simp
qed

text \<open>
  Claim C9. \<open>showLoading\<close> (entering Loading) disables the button and sets its label to
  \<open>Sending...\<close>, the ellipsis being three full stops in the source; \<open>resetButton\<close>
  (returning to Idle) enables it and sets the label \<open>Launch Message\<close>;
  \<open>clearErrors\<close> and \<open>showErrors\<close> leave both alone; and for every event of the page
  the button after the handler is disabled with \<open>Sending...\<close> when the event is a
  submit whose record validates, enabled with \<open>Launch Message\<close> when it is the expiry
  of the timer holding the \<open>submitForm\<close> call, and unchanged in every other case.
\<close>

theorem button_state_machine:
  "button (showLoading p) = (True, js ''Sending...'')
   \<and> button (resetButton p) = (False, js ''Launch Message'')
   \<and> button (clearErrors p) = button p
   \<and> button (showErrors es p) = button p
   \<and> button (page_of (step ev p)) =
       (if entersLoading ev p then (True, js ''Sending...'')
        else if stubResolves ev p then (False, js ''Launch Message'')
        else button p)"
  by (simp only: button_showLoading button_resetButton button_clearErrors button_showErrors
      button_step simp_thms)

text \<open>
  Claim C10. For an input or textarea whose name is none of name, email, subject and
  message, the switch of \<open>validateSingleField\<close> has no branch: no error is produced, the
  element (its classes and the element after it included) is returned unchanged, and a
  blur event on it leaves the whole page unchanged.
\<close>

theorem other_names_never_marked:
  assumes "el_name fld \<notin> {js ''name'', js ''email'', js ''subject'', js ''message''}"
  shows "fieldError (el_name fld) (trim (el_value fld)) = None
    \<and> validateSingleField fld = fld
    \<and> (i < length (controls p) \<and> controls p ! i = fld \<longrightarrow> step (Blur i) p = Returned p)"
proof -
  have none: "fieldError (el_name fld) (trim (el_value fld)) = None"
    using assms by (rule fieldError_other_name)
  then have same: "validateSingleField fld = fld"
    by (rule validateSingleField_no_error)
  show ?thesis
    using none same by auto
qed

text \<open>Claim C10 at a concrete input.\<close>

theorem other_names_never_marked_witness:
  "js ''phone'' \<notin> {js ''name'', js ''email'', js ''subject'', js ''message''}
   \<and> fieldError (js ''phone'') (trim (js '''')) = None
   \<and> validateSingleField
        \<lparr>el_id = js ''phone'', el_name = js ''phone'', el_value = js '''',
          el_defaultValue = js '''', el_classList = [js ''border-gray-300''],
          el_nextElementSibling =
            Some \<lparr>sib_classList = [js ''error-message'', js ''hidden''], sib_textContent = js ''''\<rparr>\<rparr>
     = \<lparr>el_id = js ''phone'', el_name = js ''phone'', el_value = js '''',
          el_defaultValue = js '''', el_classList = [js ''border-gray-300''],
          el_nextElementSibling =
            Some \<lparr>sib_classList = [js ''error-message'', js ''hidden''], sib_textContent = js ''''\<rparr>\<rparr>"
  using other_names_never_marked [of
      "\<lparr>el_id = js ''phone'', el_name = js ''phone'', el_value = js '''',
          el_defaultValue = js '''', el_classList = [js ''border-gray-300''],
          el_nextElementSibling =
            Some \<lparr>sib_classList = [js ''error-message'', js ''hidden''], sib_textContent = js ''''\<rparr>\<rparr>"]
  by (simp add: js_def)

end
